theory Spec2Isabelle
  imports Main
begin

section \<open>Python values and exceptions\<close>

text \<open>
  The values that flow through the migration and the serializers. A Python \<open>dict\<close> is an
  association list (insertion-ordered, keyed by strings); \<open>None\<close> is \<open>PNone\<close>; a
  \<open>datetime\<close> is an opaque timestamp.
\<close>

datatype pyval =
    PNone
  | PBool bool
  | PInt int
  | PStr string
  | PDateTime nat
  | PList "pyval list"
  | PDict "(string \<times> pyval) list"

type_synonym pydict = "(string \<times> pyval) list"

text \<open>The exceptions that the modelled code can raise; each carries what Python attaches.\<close>

datatype exn =
    ValidationError pyval
  | IntegrityError string
  | TypeError string
  | KeyError string
  | DoesNotExist

text \<open>\<open>d.get(k)\<close>: the value stored under \<open>k\<close>, or \<open>None\<close> when the key is absent.\<close>

definition dict_get :: "pydict \<Rightarrow> string \<Rightarrow> pyval" where
  "dict_get d k = (case map_of d k of None \<Rightarrow> PNone | Some v \<Rightarrow> v)"

text \<open>
  Python truth value testing, as used by \<open>if x and ...\<close>: \<open>None\<close>, \<open>False\<close>, zero and
  empty containers are false; a \<open>datetime\<close> object is always true.
\<close>

fun truthy :: "pyval \<Rightarrow> bool" where
  "truthy PNone = False"
| "truthy (PBool b) = b"
| "truthy (PInt i) = (i \<noteq> 0)"
| "truthy (PStr s) = (s \<noteq> [])"
| "truthy (PDateTime t) = True"
| "truthy (PList xs) = (xs \<noteq> [])"
| "truthy (PDict kvs) = (kvs \<noteq> [])"


section \<open>Migration 0079: schema operations\<close>

text \<open>
  \<open>Migration.operations\<close> of \<open>0079_dm_embed_and_alert_fields.py\<close>. A field keeps the
  keyword arguments exactly as the source passes them; an argument that the source does not
  pass is \<open>None\<close> here.
\<close>

datatype field_class = BooleanField | CharField

record field =
  field_class :: field_class
  help_text :: string
  null_kw :: "bool option"
  default_kw :: "bool option"
  max_length_kw :: "nat option"

datatype operation =
    AddField string string field
  | RunPython string string

definition operations :: "operation list" where
  "operations =
    [ AddField ''filter'' ''send_alert''
        \<lparr>field_class = BooleanField, help_text = ''Whether alert should be sent.'',
         null_kw = Some True, default_kw = None, max_length_kw = None\<rparr>,
      AddField ''filter'' ''dm_embed''
        \<lparr>field_class = CharField, help_text = ''The content of the DM embed'',
         null_kw = Some True, default_kw = None, max_length_kw = Some 2000\<rparr>,
      AddField ''filterlist'' ''send_alert''
        \<lparr>field_class = BooleanField, help_text = ''Whether alert should be sent.'',
         null_kw = None, default_kw = Some True, max_length_kw = None\<rparr>,
      AddField ''filterlist'' ''dm_embed''
        \<lparr>field_class = CharField, help_text = ''The content of the DM embed'',
         null_kw = Some True, default_kw = None, max_length_kw = Some 2000\<rparr>,
      RunPython ''migrate_filterlist'' ''unmigrate_filterlist'' ]"

text \<open>
  Django's \<open>Field.__init__\<close> has \<open>null=False\<close> as its default: a column is nullable only
  when the declaration passes \<open>null=True\<close>.
\<close>

definition null :: "field \<Rightarrow> bool" where
  "null f = (case null_kw f of None \<Rightarrow> False | Some b \<Rightarrow> b)"

text \<open>The field that the operations add under a given model name and column name.\<close>

fun added_field :: "operation list \<Rightarrow> string \<Rightarrow> string \<Rightarrow> field option" where
  "added_field [] m n = None"
| "added_field (AddField m' n' f # ops) m n =
     (if m' = m \<and> n' = n then Some f else added_field ops m n)"
| "added_field (RunPython fw bw # ops) m n = added_field ops m n"

text \<open>
  Whether a column accepts \<open>NULL\<close> once the operations are applied. Columns that this
  migration does not declare are not constrained by it.
\<close>

definition column_null :: "string \<Rightarrow> string \<Rightarrow> bool" where
  "column_null m n = (case added_field operations m n of None \<Rightarrow> True | Some f \<Rightarrow> null f)"


section \<open>Migration 0079: the data migration\<close>

text \<open>
  A \<open>FilterList\<close> object as the two functions see it: its primary key, its \<open>name\<close>, the two
  added attributes and the attribute \<open>server_message_embed\<close> that the reverse function
  assigns. \<open>None\<close> is Python's \<open>None\<close> (SQL \<open>NULL\<close>). The model class is not part of
  the migration, so the type of the embed is left open.
\<close>

record 'e filter_list =
  pk :: nat
  name :: string
  send_alert :: "bool option"
  dm_embed :: "string option"
  server_message_embed :: "'e option"

type_synonym 'e table = "'e filter_list list"

text \<open>The literal \<open>change_map\<close> of \<open>migrate_filterlist\<close>.\<close>

definition change_map :: "(string \<times> bool) list" where
  "change_map =
    [ (''token'', True),
      (''domain'', True),
      (''invite'', True),
      (''extension'', False),
      (''redirect'', False) ]"

text \<open>
  \<open>filter_list.save()\<close>: writes the object over the row with its primary key. The database
  refuses \<open>NULL\<close> in a column that the schema declares without \<open>null=True\<close> and the call
  raises \<open>IntegrityError\<close>; of the two columns added by this migration, that is
  \<open>filterlist.send_alert\<close>.
\<close>

definition save :: "'e filter_list \<Rightarrow> 'e table \<Rightarrow> exn + 'e table" where
  "save obj tbl =
     (if send_alert obj = None \<and> \<not> column_null ''filterlist'' ''send_alert''
        then Inl (IntegrityError ''send_alert'')
      else if dm_embed obj = None \<and> \<not> column_null ''filterlist'' ''dm_embed''
        then Inl (IntegrityError ''dm_embed'')
      else Inr (map (\<lambda>r. if pk r = pk obj then obj else r) tbl))"

text \<open>
  The loop \<open>for filter_list in FilterList.objects.all(): ...; filter_list.save()\<close>, shared
  by both directions: \<open>upd\<close> is the block of assignments, the first argument the rows still
  to visit (the query result, fetched before the first iteration), the second the table.
  An exception from \<open>save\<close> leaves the loop.
\<close>

fun save_each ::
  "('e filter_list \<Rightarrow> 'e filter_list) \<Rightarrow> 'e filter_list list \<Rightarrow> 'e table \<Rightarrow> exn + 'e table"
where
  "save_each upd [] tbl = Inr tbl"
| "save_each upd (fl # rest) tbl =
     (case save (upd fl) tbl of
        Inl e \<Rightarrow> Inl e
      | Inr tbl' \<Rightarrow> save_each upd rest tbl')"

text \<open>The body of the forward loop: lines 17 and 18.\<close>

definition migrate_row :: "'e filter_list \<Rightarrow> 'e filter_list" where
  "migrate_row fl = fl\<lparr>send_alert := map_of change_map (name fl), dm_embed := Some []\<rparr>"

definition migrate_filterlist :: "'e table \<Rightarrow> exn + 'e table" where
  "migrate_filterlist tbl = save_each migrate_row tbl tbl"

text \<open>The body of the reverse loop: lines 25 and 26.\<close>

definition unmigrate_row :: "'e filter_list \<Rightarrow> 'e filter_list" where
  "unmigrate_row fl = fl\<lparr>send_alert := Some True, server_message_embed := None\<rparr>"

definition unmigrate_filterlist :: "'e table \<Rightarrow> exn + 'e table" where
  "unmigrate_filterlist tbl = save_each unmigrate_row tbl tbl"


section \<open>Serializers: custom validation\<close>

text \<open>
  The operand of the f-strings in \<open>InfractionSerializer.validate\<close>. Both are evaluated only
  after \<open>infr_type in (...)\<close> has matched a string literal, where \<open>infr_type\<close> is a
  \<open>str\<close> and is formatted as itself; no other value reaches them.
\<close>

definition fstr :: "pyval \<Rightarrow> string" where
  "fstr v = (case v of PStr s \<Rightarrow> s | _ \<Rightarrow> [])"

text \<open>\<open>InfractionSerializer.validate\<close> (lines 111 to 124).\<close>

definition InfractionSerializer_validate :: "pydict \<Rightarrow> exn + pydict" where
  "InfractionSerializer_validate attrs =
     (let infr_type = dict_get attrs ''type'';
          expires_at = dict_get attrs ''expires_at''
      in if truthy expires_at \<and> infr_type \<in> set [PStr ''kick'', PStr ''warning'']
         then Inl (ValidationError (PDict
                [(''expires_at'', PList [PStr (fstr infr_type @ '' infractions cannot expire.'')])]))
         else
           let hidden = dict_get attrs ''hidden''
           in if truthy hidden \<and> infr_type \<in> set [PStr ''superstar'']
              then Inl (ValidationError (PDict
                     [(''hidden'', PList [PStr (fstr infr_type @ '' infractions cannot be hidden.'')])]))
              else Inr attrs)"

text \<open>\<open>NominationSerializer.validate\<close> (lines 285 to 293).\<close>

definition NominationSerializer_validate :: "pydict \<Rightarrow> exn + pydict" where
  "NominationSerializer_validate attrs =
     (let active = dict_get attrs ''active'';
          unnominate_reason = dict_get attrs ''unnominate_reason''
      in if truthy active \<and> truthy unnominate_reason
         then Inl (ValidationError (PDict
                [(''unnominate_reason'',
                  PStr ''An active nomination can't have an unnominate reason'')]))
         else Inr attrs)"





section \<open>Serializers: nested creation\<close>

text \<open>
  The two tables that \<open>MessageDeletionContextSerializer.create\<close> writes to are kept as
  one journal of rows in the order of their creation: the model, the primary key that the
  database assigned, and the keyword arguments of \<open>objects.create\<close>.
\<close>

datatype model = MessageDeletionContext | DeletedMessage

type_synonym store = "(model \<times> nat \<times> pydict) list"

definition pks_of :: "model \<Rightarrow> store \<Rightarrow> nat list" where
  "pks_of m st = map (\<lambda>r. fst (snd r)) (filter (\<lambda>r. fst r = m) st)"

text \<open>The database gives a new row a primary key above every key of its table.\<close>

definition fresh_pk :: "model \<Rightarrow> store \<Rightarrow> nat" where
  "fresh_pk m st = Suc (fold max (pks_of m st) 0)"

text \<open>\<open>Model.objects.create(**kwargs)\<close>: inserts one row and returns the new instance.\<close>

definition objects_create :: "model \<Rightarrow> pydict \<Rightarrow> store \<Rightarrow> nat \<times> store" where
  "objects_create m kwargs st = (let i = fresh_pk m st in (i, st @ [(m, i, kwargs)]))"

text \<open>
  The argument list \<open>(k=v, **d)\<close> of a call. Python raises \<open>TypeError\<close> when \<open>d\<close> is
  not a mapping and when \<open>d\<close> has the key \<open>k\<close> as well (multiple values for one keyword
  argument).
\<close>

definition kwargs_with :: "string \<Rightarrow> pyval \<Rightarrow> pyval \<Rightarrow> exn + pydict" where
  "kwargs_with k v d =
     (case d of
        PDict kvs \<Rightarrow>
          if k \<in> set (map fst kvs)
          then Inl (TypeError ''got multiple values for keyword argument'')
          else Inr ((k, v) # kvs)
      | _ \<Rightarrow> Inl (TypeError ''argument after ** must be a mapping''))"

text \<open>The elements that a \<open>for\<close> loop draws from a value.\<close>

definition py_iter :: "pyval \<Rightarrow> exn + pyval list" where
  "py_iter v =
     (case v of
        PList xs \<Rightarrow> Inr xs
      | PStr s \<Rightarrow> Inr (map (\<lambda>c. PStr [c]) s)
      | PDict kvs \<Rightarrow> Inr (map (\<lambda>kv. PStr (fst kv)) kvs)
      | _ \<Rightarrow> Inl (TypeError ''object is not iterable''))"

text \<open>
  The loop of lines 81 to 85. The new context is passed as its primary key. The store is
  returned with the exception too: the rows created before it are not undone by this code.
\<close>

fun create_messages :: "nat \<Rightarrow> pyval list \<Rightarrow> store \<Rightarrow> exn option \<times> store" where
  "create_messages deletion_context [] st = (None, st)"
| "create_messages deletion_context (message # rest) st =
     (case kwargs_with ''deletion_context'' (PInt (int deletion_context)) message of
        Inl e \<Rightarrow> (Some e, st)
      | Inr kwargs \<Rightarrow>
          create_messages deletion_context rest (snd (objects_create DeletedMessage kwargs st)))"

text \<open>\<open>MessageDeletionContextSerializer.create\<close> (lines 70 to 87).\<close>

definition MessageDeletionContextSerializer_create ::
  "pydict \<Rightarrow> store \<Rightarrow> (exn + nat) \<times> store"
where
  "MessageDeletionContextSerializer_create validated_data st =
     (case map_of validated_data ''deletedmessage_set'' of
        None \<Rightarrow> (Inl (KeyError ''deletedmessage_set''), st)
      | Some messages \<Rightarrow>
          let popped = filter (\<lambda>kv. fst kv \<noteq> ''deletedmessage_set'') validated_data;
              created = objects_create MessageDeletionContext popped st;
              deletion_context = fst created
          in (case py_iter messages of
                Inl e \<Rightarrow> (Inl e, snd created)
              | Inr ms \<Rightarrow>
                  (case create_messages deletion_context ms (snd created) of
                     (Some e, st') \<Rightarrow> (Inl e, st')
                   | (None, st') \<Rightarrow> (Inr deletion_context, st'))))"


section \<open>Serializers: the family of converters\<close>

text \<open>The serializer classes of \<open>serializers.py\<close>, in the order of the file.\<close>

datatype serializer =
    BotSettingSerializer
  | DeletedMessageSerializer
  | MessageDeletionContextSerializer
  | DocumentationLinkSerializer
  | InfractionSerializer
  | ExpandedInfractionSerializer
  | LogEntrySerializer
  | OffTopicChannelNameSerializer
  | SnakeFactSerializer
  | SnakeIdiomSerializer
  | SnakeNameSerializer
  | SpecialSnakeSerializer
  | ReminderSerializer
  | RoleSerializer
  | TagSerializer
  | UserSerializer
  | NominationSerializer

text \<open>
  \<open>OffTopicChannelNameSerializer.to_representation\<close> (lines 172 to 182): the record is
  represented by \<open>obj.name\<close> alone, not by a dictionary.
\<close>

definition OffTopicChannelNameSerializer_to_representation :: "pydict \<Rightarrow> pyval" where
  "OffTopicChannelNameSerializer_to_representation obj = dict_get obj ''name''"





section \<open>Properties of the migration\<close>

subsection \<open>The schema and the loop\<close>

lemma filterlist_send_alert_not_null: "\<not> column_null ''filterlist'' ''send_alert''"
  by (simp add: column_null_def operations_def null_def)

lemma filterlist_dm_embed_null: "column_null ''filterlist'' ''dm_embed''"
  by (simp add: column_null_def operations_def null_def)

lemma save_eq:
  "save obj tbl =
     (if send_alert obj = None then Inl (IntegrityError ''send_alert'')
      else Inr (map (\<lambda>r. if pk r = pk obj then obj else r) tbl))"
  by (simp add: save_def filterlist_send_alert_not_null filterlist_dm_embed_null)

lemma save_each_null:
  "\<exists>r\<in>set todo. send_alert (upd r) = None \<Longrightarrow>
     save_each upd todo tbl = Inl (IntegrityError ''send_alert'')"
proof (induction todo arbitrary: tbl)
  case Nil
  then show ?case by simp
next
  case (Cons fl rest)
  show ?case
  proof (cases "send_alert (upd fl) = None")
    case True
    then show ?thesis by (simp add: save_eq)
  next
    case False
    with Cons.prems have "\<exists>r\<in>set rest. send_alert (upd r) = None" by auto
    then show ?thesis using False Cons.IH by (simp add: save_eq)
  qed
qed

lemma replace_row_other:
  "pk obj \<notin> pk ` set rows \<Longrightarrow> map (\<lambda>r. if pk r = pk obj then obj else r) rows = rows"
  by (induction rows) auto

lemma save_each_rows:
  assumes "\<And>r. pk (upd r) = pk r"
    and "distinct (map pk todo)"
    and "pk ` set pre \<inter> pk ` set todo = {}"
    and "\<forall>r\<in>set todo. send_alert (upd r) \<noteq> None"
  shows "save_each upd todo (pre @ todo) = Inr (pre @ map upd todo)"
  using assms(2-4)
proof (induction todo arbitrary: pre)
  case Nil
  then show ?case by simp
next
  case (Cons fl rest)
  have pre: "pk (upd fl) \<notin> pk ` set pre" using Cons.prems(2) assms(1) by auto
  have rest: "pk (upd fl) \<notin> pk ` set rest" using Cons.prems(1) assms(1) by auto
  have saved: "save (upd fl) (pre @ fl # rest) = Inr ((pre @ [upd fl]) @ rest)"
    using Cons.prems(3) replace_row_other[OF pre] replace_row_other[OF rest]
    by (simp add: save_eq assms(1))
  have "save_each upd rest ((pre @ [upd fl]) @ rest) = Inr ((pre @ [upd fl]) @ map upd rest)"
  proof (rule Cons.IH)
    show "distinct (map pk rest)" using Cons.prems(1) by simp
    show "pk ` set (pre @ [upd fl]) \<inter> pk ` set rest = {}"
      using Cons.prems(1,2) assms(1) by auto
    show "\<forall>r\<in>set rest. send_alert (upd r) \<noteq> None" using Cons.prems(3) by simp
  qed
  then show ?case using saved by simp
qed

lemma save_each_table:
  assumes "\<And>r. pk (upd r) = pk r" and "distinct (map pk tbl)"
  shows "save_each upd tbl tbl =
           (if \<exists>r\<in>set tbl. send_alert (upd r) = None
            then Inl (IntegrityError ''send_alert'') else Inr (map upd tbl))"
proof (cases "\<exists>r\<in>set tbl. send_alert (upd r) = None")
  case True
  then show ?thesis by (simp add: save_each_null)
next
  case False
  then have "save_each upd tbl ([] @ tbl) = Inr ([] @ map upd tbl)"
    using assms by (intro save_each_rows) auto
  then show ?thesis using False by simp
qed

lemma pk_migrate_row: "pk (migrate_row r) = pk r"
  by (simp add: migrate_row_def)

lemma pk_unmigrate_row: "pk (unmigrate_row r) = pk r"
  by (simp add: unmigrate_row_def)

lemma migrate_row_twice: "migrate_row (migrate_row r) = migrate_row r"
  by (simp add: migrate_row_def)

subsection \<open>The added columns\<close>

text \<open>
  Claim C7, as stated, asks for all four added columns to be nullable. The declaration of
  \<open>filterlist.send_alert\<close> (line 50) passes \<open>default=True\<close> and no \<open>null=True\<close>: the
  column is not nullable.
\<close>

theorem added_columns_nullable_counterexample:
  "map_option null (added_field operations ''filterlist'' ''send_alert'') = Some False"
  by (simp add: operations_def null_def)

text \<open>
  Claim C7, amended: the forward migration adds \<open>send_alert\<close> as a nullable boolean to
  \<open>filter\<close> and as a non-nullable boolean with default true to \<open>filterlist\<close>, and
  \<open>dm_embed\<close> as a nullable text column of at most 2000 characters to both, under these
  exact column names.
\<close>

theorem added_columns_shape:
  "map_option (\<lambda>f. (field_class f, null f, default_kw f, max_length_kw f))
       (added_field operations ''filter'' ''send_alert'') = Some (BooleanField, True, None, None) \<and>
   map_option (\<lambda>f. (field_class f, null f, default_kw f, max_length_kw f))
       (added_field operations ''filter'' ''dm_embed'') = Some (CharField, True, None, Some 2000) \<and>
   map_option (\<lambda>f. (field_class f, null f, default_kw f, max_length_kw f))
       (added_field operations ''filterlist'' ''send_alert'') = Some (BooleanField, False, Some True, None) \<and>
   map_option (\<lambda>f. (field_class f, null f, default_kw f, max_length_kw f))
       (added_field operations ''filterlist'' ''dm_embed'') = Some (CharField, True, None, Some 2000)"
  by (simp add: operations_def null_def)

subsection \<open>The forward backfill\<close>

text \<open>
  Claim C1, as stated, has every row end with \<open>send_alert\<close> equal to the lookup of its
  name, which is null for a name outside the mapping. For such a row line 17 assigns
  \<open>None\<close> and \<open>save()\<close> on line 19 writes it to the column that line 50 declares without
  \<open>null=True\<close>: the migration stops with \<open>IntegrityError\<close> and no row holds a null.
\<close>

theorem migrate_filterlist_unmapped_counterexample:
  "migrate_filterlist
     [\<lparr>pk = 1, name = ''foo'', send_alert = Some True, dm_embed = None,
       server_message_embed = (None :: unit option)\<rparr>]
   = Inl (IntegrityError ''send_alert'')"
  by (simp add: migrate_filterlist_def migrate_row_def change_map_def save_eq)

text \<open>
  Claim C1, amended: on a table (primary keys unique) whose rows all carry one of the five
  mapped names, the forward migration completes and every row keeps its key and name, has
  \<open>send_alert\<close> equal to the lookup of its name (token, domain and invite give true;
  extension and redirect give false) and has \<open>dm_embed\<close> equal to the empty string.
\<close>

theorem migrate_filterlist_backfill:
  assumes "distinct (map pk tbl)"
    and "\<forall>r\<in>set tbl. name r \<in> {''token'', ''domain'', ''invite'', ''extension'', ''redirect''}"
  shows "(\<exists>tbl'. migrate_filterlist tbl = Inr tbl' \<and> length tbl' = length tbl \<and>
            (\<forall>i<length tbl.
               pk (tbl' ! i) = pk (tbl ! i) \<and> name (tbl' ! i) = name (tbl ! i) \<and>
               send_alert (tbl' ! i) = map_of change_map (name (tbl ! i)) \<and>
               dm_embed (tbl' ! i) = Some [])) \<and>
         map_of change_map ''token'' = Some True \<and>
         map_of change_map ''domain'' = Some True \<and>
         map_of change_map ''invite'' = Some True \<and>
         map_of change_map ''extension'' = Some False \<and>
         map_of change_map ''redirect'' = Some False"
proof -
  have "\<forall>r\<in>set tbl. send_alert (migrate_row r) \<noteq> None"
    using assms(2) by (auto simp: migrate_row_def change_map_def)
  then have "migrate_filterlist tbl = Inr (map migrate_row tbl)"
    using save_each_table[of migrate_row tbl, OF pk_migrate_row assms(1)]
    by (simp add: migrate_filterlist_def)
  moreover have "\<forall>i<length tbl.
       pk (map migrate_row tbl ! i) = pk (tbl ! i) \<and>
       name (map migrate_row tbl ! i) = name (tbl ! i) \<and>
       send_alert (map migrate_row tbl ! i) = map_of change_map (name (tbl ! i)) \<and>
       dm_embed (map migrate_row tbl ! i) = Some []"
    by (simp add: migrate_row_def)
  ultimately have "\<exists>tbl'. migrate_filterlist tbl = Inr tbl' \<and> length tbl' = length tbl \<and>
            (\<forall>i<length tbl.
               pk (tbl' ! i) = pk (tbl ! i) \<and> name (tbl' ! i) = name (tbl ! i) \<and>
               send_alert (tbl' ! i) = map_of change_map (name (tbl ! i)) \<and>
               dm_embed (tbl' ! i) = Some [])"
    by (intro exI[of _ "map migrate_row tbl"]) simp
  then show ?thesis by (simp add: change_map_def)
qed

theorem migrate_filterlist_backfill_witness:
  "distinct (map pk
     [\<lparr>pk = 1, name = ''token'', send_alert = Some False, dm_embed = None,
        server_message_embed = (None :: unit option)\<rparr>,
      \<lparr>pk = 2, name = ''extension'', send_alert = Some True, dm_embed = Some ''x'',
        server_message_embed = None\<rparr>]) \<and>
   set (map name
     [\<lparr>pk = 1, name = ''token'', send_alert = Some False, dm_embed = None,
        server_message_embed = (None :: unit option)\<rparr>,
      \<lparr>pk = 2, name = ''extension'', send_alert = Some True, dm_embed = Some ''x'',
        server_message_embed = None\<rparr>])
     \<subseteq> {''token'', ''domain'', ''invite'', ''extension'', ''redirect''} \<and>
   (\<exists>tbl'. migrate_filterlist
     [\<lparr>pk = 1, name = ''token'', send_alert = Some False, dm_embed = None,
        server_message_embed = (None :: unit option)\<rparr>,
      \<lparr>pk = 2, name = ''extension'', send_alert = Some True, dm_embed = Some ''x'',
        server_message_embed = None\<rparr>] = Inr tbl' \<and>
      length tbl' = 2 \<and>
      send_alert (tbl' ! 0) = Some True \<and> dm_embed (tbl' ! 0) = Some [] \<and>
      send_alert (tbl' ! 1) = Some False \<and> dm_embed (tbl' ! 1) = Some [])"
proof -
  let ?T = "[\<lparr>pk = 1, name = ''token'', send_alert = Some False, dm_embed = None,
        server_message_embed = (None :: unit option)\<rparr>,
      \<lparr>pk = 2, name = ''extension'', send_alert = Some True, dm_embed = Some ''x'',
        server_message_embed = None\<rparr>]"
  have d: "distinct (map pk ?T)" by simp
  have n: "\<forall>r\<in>set ?T. name r \<in> {''token'', ''domain'', ''invite'', ''extension'', ''redirect''}"
    by simp
  from migrate_filterlist_backfill[OF d n]
  obtain tbl' where r: "migrate_filterlist ?T = Inr tbl'" and l: "length tbl' = length ?T"
    and p: "\<forall>i<length ?T.
               pk (tbl' ! i) = pk (?T ! i) \<and> name (tbl' ! i) = name (?T ! i) \<and>
               send_alert (tbl' ! i) = map_of change_map (name (?T ! i)) \<and>
               dm_embed (tbl' ! i) = Some []"
    by blast
  from p have "send_alert (tbl' ! 0) = Some True \<and> dm_embed (tbl' ! 0) = Some []"
    by (simp add: change_map_def)
  moreover from p have "send_alert (tbl' ! 1) = Some False \<and> dm_embed (tbl' ! 1) = Some []"
    by (simp add: change_map_def)
  moreover from l have "length tbl' = 2" by simp
  moreover have "set (map name ?T)
      \<subseteq> {''token'', ''domain'', ''invite'', ''extension'', ''redirect''}"
    by simp
  ultimately show ?thesis using d r by blast
qed

subsection \<open>The reverse function\<close>

text \<open>
  Claim C8: after the reverse function has run, every \<open>FilterList\<close> row has
  \<open>send_alert\<close> equal to true and \<open>server_message_embed\<close> equal to null, whatever the
  row held before; the rows keep their keys and names. The table has unique primary keys.
\<close>

theorem unmigrate_filterlist_resets:
  assumes "distinct (map pk tbl)"
  shows "\<exists>tbl'. unmigrate_filterlist tbl = Inr tbl' \<and>
           map pk tbl' = map pk tbl \<and> map name tbl' = map name tbl \<and>
           (\<forall>r\<in>set tbl'. send_alert r = Some True \<and> server_message_embed r = None)"
proof -
  have "\<forall>r\<in>set tbl. send_alert (unmigrate_row r) \<noteq> None"
    by (simp add: unmigrate_row_def)
  then have "unmigrate_filterlist tbl = Inr (map unmigrate_row tbl)"
    using save_each_table[of unmigrate_row tbl, OF pk_unmigrate_row assms]
    by (simp add: unmigrate_filterlist_def)
  moreover have "map pk (map unmigrate_row tbl) = map pk tbl"
    and "map name (map unmigrate_row tbl) = map name tbl"
    by (simp_all add: unmigrate_row_def)
  moreover have "\<forall>r\<in>set (map unmigrate_row tbl).
      send_alert r = Some True \<and> server_message_embed r = None"
    by (simp add: unmigrate_row_def)
  ultimately show ?thesis by blast
qed

theorem unmigrate_filterlist_resets_witness:
  "distinct (map pk
     [\<lparr>pk = 4, name = ''invite'', send_alert = Some False, dm_embed = Some ''hello'',
        server_message_embed = Some ''embed''\<rparr>,
      \<lparr>pk = 7, name = ''other'', send_alert = None, dm_embed = None,
        server_message_embed = None\<rparr>]) \<and>
   (\<exists>tbl'. unmigrate_filterlist
     [\<lparr>pk = 4, name = ''invite'', send_alert = Some False, dm_embed = Some ''hello'',
        server_message_embed = Some ''embed''\<rparr>,
      \<lparr>pk = 7, name = ''other'', send_alert = None, dm_embed = None,
        server_message_embed = None\<rparr>] = Inr tbl' \<and>
      map pk tbl' = [4, 7] \<and> map name tbl' = [''invite'', ''other''] \<and>
      (\<forall>r\<in>set tbl'. send_alert r = Some True \<and> server_message_embed r = None))"
proof -
  let ?T = "[\<lparr>pk = 4, name = ''invite'', send_alert = Some False, dm_embed = Some ''hello'',
        server_message_embed = Some ''embed''\<rparr>,
      \<lparr>pk = 7, name = ''other'', send_alert = None, dm_embed = None,
        server_message_embed = None\<rparr>]"
  have d: "distinct (map pk ?T)" by simp
  show ?thesis using unmigrate_filterlist_resets[OF d] d by simp
qed

subsection \<open>Idempotence of the backfill\<close>

text \<open>
  Claim C9: running the forward function on a table that it has already migrated gives
  exactly the migrated table again, and applying the assignments of the loop body to a row
  twice equals applying them once.
\<close>

theorem migrate_filterlist_idempotent:
  assumes "distinct (map pk tbl)" and "migrate_filterlist tbl = Inr tbl'"
  shows "migrate_filterlist tbl' = Inr tbl' \<and>
         (\<forall>r\<in>set tbl. migrate_row (migrate_row r) = migrate_row r)"
proof -
  have first: "save_each migrate_row tbl tbl =
           (if \<exists>r\<in>set tbl. send_alert (migrate_row r) = None
            then Inl (IntegrityError ''send_alert'') else Inr (map migrate_row tbl))"
    by (rule save_each_table[OF pk_migrate_row assms(1)])
  have ok: "\<forall>r\<in>set tbl. send_alert (migrate_row r) \<noteq> None"
    using first assms(2) by (auto simp: migrate_filterlist_def split: if_splits)
  have tbl': "tbl' = map migrate_row tbl"
    using first assms(2) ok by (simp add: migrate_filterlist_def)
  have d': "distinct (map pk tbl')"
    using assms(1) by (simp add: tbl' o_def pk_migrate_row)
  have ok': "\<forall>r\<in>set tbl'. send_alert (migrate_row r) \<noteq> None"
    using ok by (simp add: tbl' migrate_row_twice)
  have "save_each migrate_row tbl' tbl' = Inr (map migrate_row tbl')"
    using save_each_table[of migrate_row tbl', OF pk_migrate_row d'] ok' by simp
  then have "migrate_filterlist tbl' = Inr tbl'"
    by (simp add: migrate_filterlist_def tbl' migrate_row_twice)
  then show ?thesis by (simp add: migrate_row_twice)
qed

theorem migrate_filterlist_idempotent_witness:
  "distinct (map pk
     [\<lparr>pk = 1, name = ''domain'', send_alert = Some False, dm_embed = None,
        server_message_embed = (None :: unit option)\<rparr>,
      \<lparr>pk = 2, name = ''redirect'', send_alert = Some True, dm_embed = Some ''x'',
        server_message_embed = None\<rparr>]) \<and>
   migrate_filterlist
     [\<lparr>pk = 1, name = ''domain'', send_alert = Some False, dm_embed = None,
        server_message_embed = (None :: unit option)\<rparr>,
      \<lparr>pk = 2, name = ''redirect'', send_alert = Some True, dm_embed = Some ''x'',
        server_message_embed = None\<rparr>]
   = Inr
     [\<lparr>pk = 1, name = ''domain'', send_alert = Some True, dm_embed = Some [],
        server_message_embed = None\<rparr>,
      \<lparr>pk = 2, name = ''redirect'', send_alert = Some False, dm_embed = Some [],
        server_message_embed = None\<rparr>] \<and>
   migrate_filterlist
     [\<lparr>pk = 1, name = ''domain'', send_alert = Some True, dm_embed = Some [],
        server_message_embed = (None :: unit option)\<rparr>,
      \<lparr>pk = 2, name = ''redirect'', send_alert = Some False, dm_embed = Some [],
        server_message_embed = None\<rparr>]
   = Inr
     [\<lparr>pk = 1, name = ''domain'', send_alert = Some True, dm_embed = Some [],
        server_message_embed = None\<rparr>,
      \<lparr>pk = 2, name = ''redirect'', send_alert = Some False, dm_embed = Some [],
        server_message_embed = None\<rparr>]"
proof -
  let ?T = "[\<lparr>pk = 1, name = ''domain'', send_alert = Some False, dm_embed = None,
        server_message_embed = (None :: unit option)\<rparr>,
      \<lparr>pk = 2, name = ''redirect'', send_alert = Some True, dm_embed = Some ''x'',
        server_message_embed = None\<rparr>]"
  let ?T' = "[\<lparr>pk = 1, name = ''domain'', send_alert = Some True, dm_embed = Some [],
        server_message_embed = (None :: unit option)\<rparr>,
      \<lparr>pk = 2, name = ''redirect'', send_alert = Some False, dm_embed = Some [],
        server_message_embed = None\<rparr>]"
  have d: "distinct (map pk ?T)" by simp
  have r: "migrate_filterlist ?T = Inr ?T'"
    by (simp add: migrate_filterlist_def migrate_row_def change_map_def save_eq)
  show ?thesis using migrate_filterlist_idempotent[OF d r] d r by simp
qed


section \<open>Properties of the custom validation\<close>

lemma dict_get_Some: "map_of d k = Some v \<Longrightarrow> dict_get d k = v"
  by (simp add: dict_get_def)

text \<open>
  Claim C2: an infraction of type kick or warning whose \<open>expires_at\<close> is present and not
  null is rejected with a \<open>ValidationError\<close> keyed on \<open>expires_at\<close>. The value of a
  validated \<open>expires_at\<close> that is not null is a \<open>datetime\<close>.
\<close>

theorem infraction_expiry_rejected:
  assumes "map_of attrs ''type'' = Some (PStr t)"
    and "t = ''kick'' \<or> t = ''warning''"
    and "map_of attrs ''expires_at'' = Some (PDateTime d)"
  shows "InfractionSerializer_validate attrs =
           Inl (ValidationError (PDict
             [(''expires_at'', PList [PStr (t @ '' infractions cannot expire.'')])]))"
  using assms
  by (auto simp: InfractionSerializer_validate_def Let_def dict_get_Some fstr_def)

theorem infraction_expiry_rejected_witness:
  "InfractionSerializer_validate
     [(''type'', PStr ''kick''), (''expires_at'', PDateTime 1640000000), (''user'', PInt 5)] =
     Inl (ValidationError (PDict
       [(''expires_at'', PList [PStr ''kick infractions cannot expire.''])])) \<and>
   InfractionSerializer_validate
     [(''expires_at'', PDateTime 0), (''hidden'', PBool True), (''type'', PStr ''warning'')] =
     Inl (ValidationError (PDict
       [(''expires_at'', PList [PStr ''warning infractions cannot expire.''])]))"
  using infraction_expiry_rejected
          [of "[(''type'', PStr ''kick''), (''expires_at'', PDateTime 1640000000), (''user'', PInt 5)]"
              "''kick''" 1640000000]
        infraction_expiry_rejected
          [of "[(''expires_at'', PDateTime 0), (''hidden'', PBool True), (''type'', PStr ''warning'')]"
              "''warning''" 0]
  by simp

text \<open>
  Claim C4: a nomination that is active and carries a non-empty \<open>unnominate_reason\<close> is
  rejected with a \<open>ValidationError\<close> keyed on \<open>unnominate_reason\<close>; when \<open>active\<close> is
  false, or the reason is empty or missing, the input is returned.
\<close>

theorem nomination_active_reason_rejected:
  "(map_of attrs ''active'' = Some (PBool True) \<and>
    map_of attrs ''unnominate_reason'' = Some (PStr reason) \<and> reason \<noteq> [] \<longrightarrow>
      NominationSerializer_validate attrs =
        Inl (ValidationError (PDict
          [(''unnominate_reason'',
            PStr ''An active nomination can't have an unnominate reason'')]))) \<and>
   (dict_get attrs ''active'' = PBool False \<or>
    dict_get attrs ''unnominate_reason'' = PStr [] \<or>
    dict_get attrs ''unnominate_reason'' = PNone \<longrightarrow>
      NominationSerializer_validate attrs = Inr attrs)"
  by (auto simp: NominationSerializer_validate_def Let_def dict_get_Some)

theorem nomination_active_reason_rejected_witness:
  "NominationSerializer_validate
     [(''active'', PBool True), (''unnominate_reason'', PStr ''left the guild'')] =
     Inl (ValidationError (PDict
       [(''unnominate_reason'',
         PStr ''An active nomination can't have an unnominate reason'')])) \<and>
   NominationSerializer_validate
     [(''active'', PBool False), (''unnominate_reason'', PStr ''left the guild'')] =
     Inr [(''active'', PBool False), (''unnominate_reason'', PStr ''left the guild'')] \<and>
   NominationSerializer_validate
     [(''active'', PBool True), (''unnominate_reason'', PStr [])] =
     Inr [(''active'', PBool True), (''unnominate_reason'', PStr [])] \<and>
   NominationSerializer_validate [(''active'', PBool True)] = Inr [(''active'', PBool True)]"
  using nomination_active_reason_rejected
          [of "[(''active'', PBool True), (''unnominate_reason'', PStr ''left the guild'')]"
              "''left the guild''"]
        nomination_active_reason_rejected
          [of "[(''active'', PBool False), (''unnominate_reason'', PStr ''left the guild'')]"]
        nomination_active_reason_rejected
          [of "[(''active'', PBool True), (''unnominate_reason'', PStr [])]"]
        nomination_active_reason_rejected
          [of "[(''active'', PBool True)]"]
  by (simp add: dict_get_def)





text \<open>
  Claim C10: when \<open>InfractionSerializer.validate\<close> or
  \<open>NominationSerializer.validate\<close> does not raise, it returns the attribute set that it
  was given, unchanged.
\<close>

theorem validate_returns_input:
  "(\<not> isl (InfractionSerializer_validate attrs) \<longrightarrow>
      InfractionSerializer_validate attrs = Inr attrs) \<and>
   (\<not> isl (NominationSerializer_validate attrs) \<longrightarrow>
      NominationSerializer_validate attrs = Inr attrs)"
  by (simp add: InfractionSerializer_validate_def NominationSerializer_validate_def Let_def)

theorem validate_returns_input_witness:
  "\<not> isl (InfractionSerializer_validate
       [(''type'', PStr ''ban''), (''expires_at'', PDateTime 99), (''hidden'', PBool True)]) \<and>
   InfractionSerializer_validate
       [(''type'', PStr ''ban''), (''expires_at'', PDateTime 99), (''hidden'', PBool True)] =
     Inr [(''type'', PStr ''ban''), (''expires_at'', PDateTime 99), (''hidden'', PBool True)] \<and>
   \<not> isl (NominationSerializer_validate
       [(''active'', PBool False), (''unnominate_reason'', PStr ''inactive'')]) \<and>
   NominationSerializer_validate
       [(''active'', PBool False), (''unnominate_reason'', PStr ''inactive'')] =
     Inr [(''active'', PBool False), (''unnominate_reason'', PStr ''inactive'')]"
  using validate_returns_input
          [of "[(''type'', PStr ''ban''), (''expires_at'', PDateTime 99), (''hidden'', PBool True)]"]
        validate_returns_input
          [of "[(''active'', PBool False), (''unnominate_reason'', PStr ''inactive'')]"]
  by (simp add: InfractionSerializer_validate_def NominationSerializer_validate_def dict_get_def)


section \<open>Properties of nested creation\<close>

text \<open>
  When every message payload is a dictionary that has no key \<open>deletion_context\<close>, the
  loop adds one \<open>DeletedMessage\<close> row per payload, in order, each referring to the context.
\<close>

lemma create_messages_ok:
  assumes "\<forall>m\<in>set ms. \<exists>kvs. m = PDict kvs \<and> ''deletion_context'' \<notin> set (map fst kvs)"
  shows "\<exists>new. create_messages c ms st = (None, st @ new) \<and> length new = length ms \<and>
           (\<forall>i<length ms. \<exists>j kvs. ms ! i = PDict kvs \<and>
              new ! i = (DeletedMessage, j, (''deletion_context'', PInt (int c)) # kvs))"
  using assms
proof (induction ms arbitrary: st)
  case Nil
  then show ?case by simp
next
  case (Cons m rest)
  from Cons.prems obtain kvs where m: "m = PDict kvs"
    and k: "''deletion_context'' \<notin> set (map fst kvs)" by auto
  let ?row = "(DeletedMessage, fresh_pk DeletedMessage st, (''deletion_context'', PInt (int c)) # kvs)"
  from Cons.prems have "\<forall>m\<in>set rest. \<exists>kvs. m = PDict kvs \<and> ''deletion_context'' \<notin> set (map fst kvs)"
    by simp
  from Cons.IH[OF this, of "st @ [?row]"]
  obtain new where n: "create_messages c rest (st @ [?row]) = (None, (st @ [?row]) @ new)"
    and l: "length new = length rest"
    and p: "\<forall>i<length rest. \<exists>j kvs. rest ! i = PDict kvs \<and>
              new ! i = (DeletedMessage, j, (''deletion_context'', PInt (int c)) # kvs)"
    by blast
  have step: "create_messages c (m # rest) st = (None, st @ (?row # new))"
    using m k n by (simp add: kwargs_with_def objects_create_def Let_def)
  have "\<forall>i<length (m # rest). \<exists>j kvs. (m # rest) ! i = PDict kvs \<and>
              (?row # new) ! i = (DeletedMessage, j, (''deletion_context'', PInt (int c)) # kvs)"
  proof (intro allI impI)
    fix i assume "i < length (m # rest)"
    then show "\<exists>j kvs. (m # rest) ! i = PDict kvs \<and>
              (?row # new) ! i = (DeletedMessage, j, (''deletion_context'', PInt (int c)) # kvs)"
      using m p by (cases i) auto
  qed
  with step l show ?case
    by (intro exI[of _ "?row # new"]) simp
qed

lemma fresh_pk_new: "fresh_pk m st \<notin> set (pks_of m st)"
proof -
  have "\<And>a. \<forall>x\<in>set xs. x \<le> fold max xs (a::nat)" for xs
  proof (induction xs)
    case Nil show ?case by simp
  next
    case (Cons x xs)
    have "\<And>a. a \<le> fold max xs (a::nat)"
      by (induction xs) (auto intro: order_trans[OF max.cobounded2])
    then have "x \<le> fold max xs (max x a)" using order_trans[OF max.cobounded1] by blast
    with Cons show ?case by simp
  qed
  then have "\<forall>x\<in>set (pks_of m st). x < fresh_pk m st"
    by (auto simp: fresh_pk_def less_Suc_eq_le)
  then show ?thesis by blast
qed

text \<open>
  For such a payload \<open>create\<close> adds exactly one context row with a new primary key,
  then one message row per payload, each referring to that context.
\<close>

lemma create_nested_ok:
  assumes "map_of validated_data ''deletedmessage_set'' = Some (PList ms)"
    and "\<forall>m\<in>set ms. \<exists>kvs. m = PDict kvs \<and> ''deletion_context'' \<notin> set (map fst kvs)"
  shows "\<exists>c new. MessageDeletionContextSerializer_create validated_data st =
            (Inr c, st @ (MessageDeletionContext, c,
                          filter (\<lambda>kv. fst kv \<noteq> ''deletedmessage_set'') validated_data) # new) \<and>
          c \<notin> set (pks_of MessageDeletionContext st) \<and>
          length new = length ms \<and>
          (\<forall>i<length ms. \<exists>j kvs. ms ! i = PDict kvs \<and>
              new ! i = (DeletedMessage, j, (''deletion_context'', PInt (int c)) # kvs))"
proof -
  let ?c = "fresh_pk MessageDeletionContext st"
  let ?st1 = "st @ [(MessageDeletionContext, ?c,
                     filter (\<lambda>kv. fst kv \<noteq> ''deletedmessage_set'') validated_data)]"
  from create_messages_ok[OF assms(2), of ?c ?st1]
  obtain new where n: "create_messages ?c ms ?st1 = (None, ?st1 @ new)"
    and l: "length new = length ms"
    and p: "\<forall>i<length ms. \<exists>j kvs. ms ! i = PDict kvs \<and>
              new ! i = (DeletedMessage, j, (''deletion_context'', PInt (int ?c)) # kvs)"
    by blast
  have "MessageDeletionContextSerializer_create validated_data st = (Inr ?c, ?st1 @ new)"
    using assms(1) n
    by (simp add: MessageDeletionContextSerializer_create_def objects_create_def py_iter_def
                  Let_def)
  with l p fresh_pk_new[of MessageDeletionContext st] show ?thesis by auto
qed

text \<open>
  Claim C6 asks this of every valid payload. \<open>DeletedMessageSerializer\<close> lists
  \<open>deletion_context\<close> among its fields (line 54, \<open>required=False\<close>), with the comment
  that \<open>create\<close> will override it; \<open>create\<close> passes it as a keyword argument next to
  \<open>**message\<close> (lines 82 to 85). The payload of the scenario gives one context and one
  message that refers to it; the same payload whose message names an existing context under
  \<open>deletion_context\<close> gives the context, then \<open>TypeError\<close>, and no message.
\<close>

theorem create_nested_evaluated:
  "MessageDeletionContextSerializer_create
     [(''actor'', PInt 1),
      (''deletedmessage_set'',
       PList [PDict [(''author'', PInt 2), (''channel_id'', PInt 100),
                     (''content'', PStr ''hi''), (''embeds'', PList [])]])]
     [(MessageDeletionContext, 7, [(''actor'', PInt 3)])]
   = (Inr 8,
      [(MessageDeletionContext, 7, [(''actor'', PInt 3)]),
       (MessageDeletionContext, 8, [(''actor'', PInt 1)]),
       (DeletedMessage, 1,
        [(''deletion_context'', PInt 8), (''author'', PInt 2), (''channel_id'', PInt 100),
         (''content'', PStr ''hi''), (''embeds'', PList [])])]) \<and>
   MessageDeletionContextSerializer_create
     [(''actor'', PInt 1),
      (''deletedmessage_set'',
       PList [PDict [(''author'', PInt 2), (''channel_id'', PInt 100),
                     (''content'', PStr ''hi''), (''embeds'', PList []),
                     (''deletion_context'', PInt 7)]])]
     [(MessageDeletionContext, 7, [(''actor'', PInt 3)])]
   = (Inl (TypeError ''got multiple values for keyword argument''),
      [(MessageDeletionContext, 7, [(''actor'', PInt 3)]),
       (MessageDeletionContext, 8, [(''actor'', PInt 1)])])"
  by (simp add: MessageDeletionContextSerializer_create_def objects_create_def py_iter_def
                kwargs_with_def fresh_pk_def pks_of_def Let_def)


section \<open>The representation of an off-topic channel name\<close>

text \<open>
  The scenario of the specification: the record with the name \<open>general-chat\<close> is
  serialized to the bare string, not to a structured object.
\<close>

lemma off_topic_channel_name_bare:
  "OffTopicChannelNameSerializer_to_representation [(''name'', PStr ''general-chat'')] =
     PStr ''general-chat''"
  by (simp add: OffTopicChannelNameSerializer_to_representation_def dict_get_def)

end
